theory Spec2Isabelle
  imports Complex_Main "HOL-Library.Multiset" "HOL-Library.Mapping" "HOL-Library.AList_Mapping"
begin

section \<open>The user model (models/user.js)\<close>

subsection \<open>JavaScript values, documents and the users collection\<close>

text \<open>
  A field of a JavaScript object holds a string, a number, a boolean or \<open>null\<close>; a field
  that is absent reads as \<open>undefined\<close>, which is \<open>None\<close> here. \<open>truthy\<close> is the test an
  \<open>if (x)\<close> makes: \<open>undefined\<close>, \<open>null\<close>, \<open>false\<close>, \<open>0\<close> and the empty string are falsy.
\<close>

datatype jsval = JStr string | JNum int | JBool bool | JNull

fun truthy :: "jsval option \<Rightarrow> bool" where
  "truthy None = False"
| "truthy (Some (JStr s)) = (s \<noteq> [])"
| "truthy (Some (JNum n)) = (n \<noteq> 0)"
| "truthy (Some (JBool b)) = b"
| "truthy (Some JNull) = False"

type_synonym doc = "string \<rightharpoonup> jsval"

text \<open>
  The Firestore collection \<open>users\<close>: the documents with their ids, in the order a query
  returns them. Firestore gives every document an id of its own.
\<close>

type_synonym collection = "(string \<times> doc) list"

text \<open>
  \<open>Error msg\<close> is \<open>new Error(msg)\<close>; \<open>NotFound\<close> is the rejection of Firestore's
  \<open>update\<close> when the document does not exist.
\<close>

datatype error = Error string | NotFound

text \<open>
  \<open>bcrypt\<close> is a library outside the repository, so its two functions are parameters:
  \<open>bc_hash data salt\<close> is what \<open>bcrypt.hash(data, salt)\<close> resolves to (\<open>Inl\<close> when it
  rejects), \<open>bc_compare entered hashed\<close> is \<open>bcrypt.compare(entered, hashed)\<close>.
\<close>

record bcrypt =
  bc_hash :: "jsval \<Rightarrow> string \<Rightarrow> error + string"
  bc_compare :: "string \<Rightarrow> string \<Rightarrow> bool"

text \<open>
  What one call reads from outside the program: the salt \<open>bcrypt.genSalt(10)\<close> resolves
  to, the two readings of the clock (\<open>new Date().toISOString()\<close>, in the order the
  source takes them) and the id Firestore gives an added document.
\<close>

record call_env =
  salt :: string
  now_created :: string
  now_updated :: string
  fresh_id :: string

text \<open>\<open>{ id: doc.id, ...doc.data() }\<close>: a field \<open>id\<close> of the data overrides the document's id.\<close>

definition with_id :: "string \<times> doc \<Rightarrow> doc" where
  "with_id p = [''id'' \<mapsto> JStr (fst p)] ++ snd p"

text \<open>
  The first four lines of \<open>create\<close> and of \<open>update\<close> are the same: a truthy password is
  replaced by its hash under a fresh salt, any other is left as it is.
\<close>

definition hash_password :: "bcrypt \<Rightarrow> string \<Rightarrow> doc \<Rightarrow> error + doc" where
  "hash_password B s userData =
     (if truthy (userData ''password'') then
        (case bc_hash B (the (userData ''password'')) s of
           Inl e \<Rightarrow> Inl e
         | Inr h \<Rightarrow> Inr (userData(''password'' \<mapsto> JStr h)))
      else Inr userData)"

subsection \<open>The queries\<close>

definition findById :: "collection \<Rightarrow> string \<Rightarrow> doc option" where
  "findById coll i = map_option (\<lambda>d. with_id (i, d)) (map_of coll i)"

text \<open>\<open>where(field, '==', v).limit(1)\<close>: the first document whose field equals \<open>v\<close>, or \<open>null\<close>.\<close>

definition find_where :: "collection \<Rightarrow> string \<Rightarrow> jsval \<Rightarrow> doc option" where
  "find_where coll field v =
     map_option with_id (find (\<lambda>p. snd p field = Some v) coll)"

definition findByEmail :: "collection \<Rightarrow> jsval \<Rightarrow> doc option" where
  "findByEmail coll email = find_where coll ''email'' email"

definition findByUsername :: "collection \<Rightarrow> jsval \<Rightarrow> doc option" where
  "findByUsername coll username = find_where coll ''username'' username"

subsection \<open>create, update, delete, comparePassword\<close>

text \<open>
  \<open>create\<close> returns the created user or the error it throws, and the collection as it
  is afterwards. The \<open>catch\<close> block logs and rethrows, so the error is the one raised.
\<close>

definition create :: "bcrypt \<Rightarrow> call_env \<Rightarrow> collection \<Rightarrow> doc \<Rightarrow> (error + doc) \<times> collection" where
  "create B env coll userData =
     (case hash_password B (salt env) userData of
        Inl e \<Rightarrow> (Inl e, coll)
      | Inr ud1 \<Rightarrow>
          (let ud2 = ud1(''createdAt'' \<mapsto> JStr (now_created env),
                         ''updatedAt'' \<mapsto> JStr (now_updated env))
           in if truthy (ud2 ''username'') \<and> findByUsername coll (the (ud2 ''username'')) \<noteq> None
              then (Inl (Error ''Username already exists''), coll)
              else (Inr (with_id (fresh_id env, ud2)), coll @ [(fresh_id env, ud2)])))"

text \<open>
  Firestore's \<open>doc(id).update(data)\<close> writes the fields of \<open>data\<close> over those of the
  document and fails when there is no document \<open>id\<close>.
\<close>

fun update_doc :: "collection \<Rightarrow> string \<Rightarrow> doc \<Rightarrow> collection option" where
  "update_doc [] i data = None"
| "update_doc ((j, d) # rest) i data =
     (if j = i then Some ((j, d ++ data) # rest)
      else map_option ((#) (j, d)) (update_doc rest i data))"

definition update :: "bcrypt \<Rightarrow> call_env \<Rightarrow> collection \<Rightarrow> string \<Rightarrow> doc \<Rightarrow> (error + doc option) \<times> collection" where
  "update B env coll i userData =
     (case hash_password B (salt env) userData of
        Inl e \<Rightarrow> (Inl e, coll)
      | Inr ud1 \<Rightarrow>
          (let ud2 = ud1(''updatedAt'' \<mapsto> JStr (now_updated env))
           in case update_doc coll i ud2 of
                None \<Rightarrow> (Inl NotFound, coll)
              | Some coll' \<Rightarrow> (Inr (findById coll' i), coll')))"

definition delete_user :: "collection \<Rightarrow> string \<Rightarrow> bool \<times> collection" where
  "delete_user coll i = (True, filter (\<lambda>p. fst p \<noteq> i) coll)"

definition comparePassword :: "bcrypt \<Rightarrow> string \<Rightarrow> string \<Rightarrow> bool" where
  "comparePassword B enteredPassword hashedPassword = bc_compare B enteredPassword hashedPassword"


subsection \<open>The contract of bcrypt, and an instance to run the model with\<close>

text \<open>
  What a caller relies on from the library: a hash it returns for a string verifies
  against that string under \<open>bcrypt.compare\<close>, and is not the string itself.
\<close>

definition bcrypt_sound :: "bcrypt \<Rightarrow> bool" where
  "bcrypt_sound B =
     (\<forall>p s h. bc_hash B (JStr p) s = Inr h \<longrightarrow> bc_compare B p h \<and> h \<noteq> p)"

text \<open>
  A stand-in for the library, used only to evaluate the model at concrete inputs: it
  rejects data that is not a string, as \<open>bcrypt.hash\<close> does, and is no hash function.
\<close>

definition sample_bcrypt :: bcrypt where
  "sample_bcrypt =
     \<lparr> bc_hash = (\<lambda>v s. case v of JStr p \<Rightarrow> Inr (p @ CHR ''$'' # s)
                                  | _ \<Rightarrow> Inl (Error ''data must be a string'')),
       bc_compare = (\<lambda>p h. length p < length h \<and> take (length p) h = p) \<rparr>"

definition sample_env :: call_env where
  "sample_env = \<lparr> salt = ''10$abc'', now_created = ''2025-01-01T00:00:00.000Z'',
                  now_updated = ''2025-01-01T00:00:00.001Z'', fresh_id = ''u2'' \<rparr>"

definition sample_env2 :: call_env where
  "sample_env2 = \<lparr> salt = ''10$xyz'', now_created = ''2025-01-02T00:00:00.000Z'',
                   now_updated = ''2025-01-02T00:00:00.001Z'', fresh_id = ''u3'' \<rparr>"

text \<open>The \<open>adminData\<close> of the script that creates the admin user.\<close>

definition admin_data :: doc where
  "admin_data = [''email'' \<mapsto> JStr ''admin@gmail.com'', ''password'' \<mapsto> JStr ''admin'',
                 ''username'' \<mapsto> JStr ''admin'']"

section \<open>The nutrition engine, from the specification\<close>

text \<open>
  The aggregator and the comparison engine are not among the repository's files: no
  function, test or caller of them is. The definitions of this section are written from
  the specification's sections 3, 4.2 and 4.3. Quantities are exact rationals; the
  specification names no number format, and rounding is outside this model.
\<close>

subsection \<open>Nutrient vectors and food entries\<close>

text \<open>
  Modelled from the spec: \<open>NutrientVector\<close>, "a mapping of nutrient key to non-negative
  quantity" over an open set of keys, with elementwise sum. A key the mapping does not
  hold has quantity 0, and the zero vector holds no key.
\<close>

type_synonym nutrient_vector = "(string, rat) mapping"

definition zero_vector :: nutrient_vector where
  "zero_vector = Mapping.empty"

definition vec_add :: "nutrient_vector \<Rightarrow> nutrient_vector \<Rightarrow> nutrient_vector" where
  "vec_add a b = Mapping.combine (+) a b"

definition quantity :: "nutrient_vector \<Rightarrow> string \<Rightarrow> rat" where
  "quantity v k = Mapping.lookup_default 0 v k"

text \<open>
  Modelled from the spec: \<open>FoodEntry\<close>, with its user, the time it was consumed (minutes
  of the user's local time) and its cached total nutrient vector; and the window, a
  half-open interval of such times.
\<close>

record food_entry =
  entry_id :: string
  user_id :: string
  consumed_at :: int
  total_nutrients :: nutrient_vector

record window =
  window_start :: int
  window_end :: int

definition in_window :: "window \<Rightarrow> int \<Rightarrow> bool" where
  "in_window w t = (window_start w \<le> t \<and> t < window_end w)"

text \<open>
  Modelled from the spec: \<open>aggregate(entries, window)\<close> "elementwise sums nutrient
  vectors of entries whose \<open>consumed_at\<close> falls within \<open>window\<close> (inclusive start,
  exclusive end)", one entry after the other from the zero vector.
\<close>

definition aggregate :: "food_entry list \<Rightarrow> window \<Rightarrow> nutrient_vector" where
  "aggregate entries w =
     fold (\<lambda>e acc. vec_add acc (total_nutrients e))
          (filter (\<lambda>e. in_window w (consumed_at e)) entries) zero_vector"

subsection \<open>Targets and comparisons\<close>

text \<open>
  Modelled from the spec: \<open>NutritionTarget\<close>, with calories, the four macro fields and
  the optional micronutrient targets, and \<open>asVector\<close>, the target read as a nutrient
  vector.
\<close>

record nutrition_target =
  calories :: rat
  protein_g :: rat
  carbs_g :: rat
  fat_g :: rat
  fiber_g :: rat
  micronutrients :: "(string \<times> rat) list"

definition asVector :: "nutrition_target \<Rightarrow> nutrient_vector" where
  "asVector t = Mapping.of_alist
     ([(''calories'', calories t), (''protein_g'', protein_g t), (''carbs_g'', carbs_g t),
       (''fat_g'', fat_g t), (''fiber_g'', fiber_g t)] @ micronutrients t)"

datatype category = Under | OnTarget | Over

text \<open>
  Modelled from the spec: \<open>delta_pct\<close> is \<open>delta / scaled_target\<close>, "defined as 0 when
  scaled_target is 0 and actual is 0; undefined/infinite sentinel when scaled_target is 0
  and actual > 0". \<open>Infinite\<close> is the sentinel; a percentage is held as a fraction.
\<close>

datatype pct = Pct rat | Infinite

datatype engine_error = InvalidProfileError | InvalidTargetError

text \<open>Modelled from the spec: the thresholds and the penalty cap, "named constants".\<close>

definition UNDER_THRESHOLD :: rat where "UNDER_THRESHOLD = - 1 / 10"
definition OVER_THRESHOLD :: rat where "OVER_THRESHOLD = 1 / 10"
definition MAX_PENALTY :: rat where "MAX_PENALTY = 50"

definition delta_pct_of :: "rat \<Rightarrow> rat \<Rightarrow> pct" where
  "delta_pct_of a s =
     (if s = 0 then (if a = 0 then Pct 0 else Infinite) else Pct ((a - s) / s))"

text \<open>
  Modelled from the spec: "under" if delta_pct < -10%, "over" if delta_pct > +10%, else
  "on-target"; penalty per nutrient = min(50, |delta_pct| x weight). The infinite
  sentinel is over the threshold and takes the whole cap.
\<close>

fun category_of :: "pct \<Rightarrow> category" where
  "category_of (Pct p) =
     (if p < UNDER_THRESHOLD then Under else if OVER_THRESHOLD < p then Over else OnTarget)"
| "category_of Infinite = Over"

fun penalty :: "rat \<Rightarrow> pct \<Rightarrow> rat" where
  "penalty wt (Pct p) = min MAX_PENALTY (\<bar>p\<bar> * wt)"
| "penalty wt Infinite = MAX_PENALTY"

record nutrient_cmp =
  cmp_actual :: rat
  cmp_target :: rat
  cmp_delta :: rat
  cmp_delta_pct :: pct
  cmp_category :: category

record comparison =
  per_nutrient :: "string \<rightharpoonup> nutrient_cmp"
  score :: rat

text \<open>
  Modelled from the spec: one nutrient of \<open>compare\<close>; "target values are multiplied by
  \<open>scale\<close> before comparison", delta = actual - scaled_target.
\<close>

definition compare_nutrient :: "nutrient_vector \<Rightarrow> nutrient_vector \<Rightarrow> rat \<Rightarrow> string \<Rightarrow> nutrient_cmp" where
  "compare_nutrient actual tv scale k =
     (let a = quantity actual k; s = quantity tv k * scale
      in \<lparr> cmp_actual = a, cmp_target = s, cmp_delta = a - s,
           cmp_delta_pct = delta_pct_of a s, cmp_category = category_of (delta_pct_of a s) \<rparr>)"

text \<open>
  Modelled from the spec: \<open>compare(actual, target, scale)\<close>, over "each nutrient present
  in either actual or target"; the score is "100 minus a weighted penalty summed over
  nutrients", "floored at 0, ceilinged at 100"; it fails with \<open>InvalidTargetError\<close> on a
  target with non-positive calories. The specification does not give the weights, so
  they are the parameter \<open>weight\<close>; the override of section 7 has no place in this
  contract and is left out.
\<close>

definition compare :: "(string \<Rightarrow> rat) \<Rightarrow> nutrient_vector \<Rightarrow> nutrition_target \<Rightarrow> rat \<Rightarrow> engine_error + comparison" where
  "compare weight actual target scale =
     (if calories target \<le> 0 then Inl InvalidTargetError
      else
        (let tv = asVector target; ks = Mapping.keys actual \<union> Mapping.keys tv
         in Inr \<lparr> per_nutrient =
                    (\<lambda>k. if k \<in> ks then Some (compare_nutrient actual tv scale k) else None),
                  score = max 0 (min 100 (100 -
                     (\<Sum>k\<in>ks. penalty (weight k)
                                (cmp_delta_pct (compare_nutrient actual tv scale k))))) \<rparr>))"

subsection \<open>Sample entries and a sample target\<close>

definition breakfast :: food_entry where
  "breakfast = \<lparr> entry_id = ''e1'', user_id = ''u1'', consumed_at = 480,
                 total_nutrients = Mapping.of_alist [(''calories'', 500), (''protein_g'', 20)] \<rparr>"

definition lunch :: food_entry where
  "lunch = \<lparr> entry_id = ''e2'', user_id = ''u1'', consumed_at = 750,
             total_nutrients = Mapping.of_alist [(''calories'', 700), (''sodium_mg'', 900)] \<rparr>"

definition whole_day :: window where
  "whole_day = \<lparr> window_start = 0, window_end = 1440 \<rparr>"

definition sample_target :: nutrition_target where
  "sample_target = \<lparr> calories = 2000, protein_g = 96, carbs_g = 254, fat_g = 200 / 3,
                      fiber_g = 0, micronutrients = [(''sodium_mg'', 2300)] \<rparr>"

definition sample_weight :: "string \<Rightarrow> rat" where
  "sample_weight k = (if k = ''calories'' then 100 else 50)"

section \<open>Properties of the user model\<close>

lemma sample_bcrypt_sound: "bcrypt_sound sample_bcrypt"
  by (auto simp: bcrypt_sound_def sample_bcrypt_def)

lemma update_doc_Some:
  "update_doc coll i data = Some coll' \<Longrightarrow>
     \<exists>d. map_of coll i = Some d \<and> map_of coll' i = Some (d ++ data)"
  by (induction coll i data arbitrary: coll' rule: update_doc.induct) (auto split: if_splits)

lemma hash_password_string:
  assumes "userData ''password'' = Some (JStr pw)" "pw \<noteq> []"
      and "hash_password B s userData = Inr ud"
  shows "\<exists>h. bc_hash B (JStr pw) s = Inr h \<and> ud = userData(''password'' \<mapsto> JStr h)"
  using assms by (auto simp: hash_password_def split: sum.splits)

lemma hash_password_other_field:
  "hash_password B s userData = Inr ud \<Longrightarrow> field \<noteq> ''password'' \<Longrightarrow> ud field = userData field"
  by (auto simp: hash_password_def split: if_splits sum.splits)

lemma find_where_exists:
  "(i, d) \<in> set coll \<Longrightarrow> d field = Some v \<Longrightarrow> find_where coll field v \<noteq> None"
  by (auto simp: find_where_def find_None_iff)

text \<open>
  C9, as the code has it. For every \<open>userData\<close> whose password is a non-empty string,
  a \<open>User.create\<close> or \<open>User.update\<close> that succeeds stores \<open>bcrypt.hash(password, salt)\<close>
  in the password field of the document (the one added, or the one updated) in place of
  the caller's value; with a bcrypt that keeps its contract, the stored value differs from
  the plaintext and verifies against it under \<open>User.comparePassword\<close>.
\<close>

theorem stored_password_is_hash:
  assumes "userData ''password'' = Some (JStr pw)" and "pw \<noteq> []" and "bcrypt_sound B"
  shows "(\<forall>user coll'. create B env coll userData = (Inr user, coll') \<longrightarrow>
            (\<exists>h d. bc_hash B (JStr pw) (salt env) = Inr h \<and> coll' = coll @ [(fresh_id env, d)]
                   \<and> d ''password'' = Some (JStr h) \<and> h \<noteq> pw \<and> comparePassword B pw h))
       \<and> (\<forall>user coll'. update B env coll i userData = (Inr user, coll') \<longrightarrow>
            (\<exists>h d. bc_hash B (JStr pw) (salt env) = Inr h \<and> map_of coll' i = Some d
                   \<and> d ''password'' = Some (JStr h) \<and> h \<noteq> pw \<and> comparePassword B pw h))"
proof (intro conjI allI impI)
  fix user coll'
  assume c: "create B env coll userData = (Inr user, coll')"
  then obtain ud where ud: "hash_password B (salt env) userData = Inr ud"
    by (auto simp: create_def split: sum.splits)
  from hash_password_string[OF assms(1,2) ud] obtain h
    where h: "bc_hash B (JStr pw) (salt env) = Inr h" "ud = userData(''password'' \<mapsto> JStr h)"
    by blast
  from assms(3) h(1) have s: "h \<noteq> pw" "comparePassword B pw h"
    by (auto simp: bcrypt_sound_def comparePassword_def)
  from c ud h(2) have "coll' = coll @ [(fresh_id env, ud(''createdAt'' \<mapsto> JStr (now_created env),
                         ''updatedAt'' \<mapsto> JStr (now_updated env)))]"
    by (auto simp: create_def Let_def split: if_splits)
  with h s show "\<exists>h d. bc_hash B (JStr pw) (salt env) = Inr h \<and> coll' = coll @ [(fresh_id env, d)]
                   \<and> d ''password'' = Some (JStr h) \<and> h \<noteq> pw \<and> comparePassword B pw h"
    by auto
next
  fix user coll'
  assume c: "update B env coll i userData = (Inr user, coll')"
  then obtain ud where ud: "hash_password B (salt env) userData = Inr ud"
    by (auto simp: update_def split: sum.splits)
  from hash_password_string[OF assms(1,2) ud] obtain h
    where h: "bc_hash B (JStr pw) (salt env) = Inr h" "ud = userData(''password'' \<mapsto> JStr h)"
    by blast
  from assms(3) h(1) have s: "h \<noteq> pw" "comparePassword B pw h"
    by (auto simp: bcrypt_sound_def comparePassword_def)
  from c ud have "update_doc coll i (ud(''updatedAt'' \<mapsto> JStr (now_updated env))) = Some coll'"
    by (auto simp: update_def Let_def split: option.splits)
  from update_doc_Some[OF this] obtain d0 where
    "map_of coll' i = Some (d0 ++ ud(''updatedAt'' \<mapsto> JStr (now_updated env)))" by blast
  with h s show "\<exists>h d. bc_hash B (JStr pw) (salt env) = Inr h \<and> map_of coll' i = Some d
                   \<and> d ''password'' = Some (JStr h) \<and> h \<noteq> pw \<and> comparePassword B pw h"
    by auto
qed

text \<open>
  The admin script's data, created in an empty collection and written over an existing
  document: both calls succeed and the stored password is the hash.
\<close>

theorem stored_password_is_hash_witness:
  "admin_data ''password'' = Some (JStr ''admin'') \<and> bcrypt_sound sample_bcrypt
   \<and> (\<exists>user d. create sample_bcrypt sample_env [] admin_data = (Inr user, [(''u2'', d)])
         \<and> d ''password'' = Some (JStr ''admin$10$abc'')
         \<and> comparePassword sample_bcrypt ''admin'' ''admin$10$abc'')
   \<and> (\<exists>user d. update sample_bcrypt sample_env [(''u1'', Map.empty)] ''u1'' admin_data
                   = (Inr user, [(''u1'', d)])
         \<and> d ''password'' = Some (JStr ''admin$10$abc''))"
  using stored_password_is_hash [of admin_data "''admin''" sample_bcrypt sample_env "[]" "''u1''"]
    sample_bcrypt_sound
  by (simp add: Let_def admin_data_def create_def update_def hash_password_def sample_bcrypt_def
        sample_env_def findByUsername_def find_where_def findById_def comparePassword_def)

text \<open>
  C9 as stated fails for the empty password: \<open>if (userData.password)\<close> is false for it,
  no hash is taken, and the document stored holds the caller's own value.
\<close>

theorem empty_password_stored_unhashed:
  "snd (create sample_bcrypt sample_env [] [''password'' \<mapsto> JStr '''']) =
     [(''u2'', [''password'' \<mapsto> JStr '''', ''createdAt'' \<mapsto> JStr ''2025-01-01T00:00:00.000Z'',
               ''updatedAt'' \<mapsto> JStr ''2025-01-01T00:00:00.001Z''])]"
  by (simp add: Let_def create_def hash_password_def sample_env_def)

text \<open>
  C10, as the code has it. For every \<open>userData\<close> whose username is truthy (for a string:
  not empty) and is the username of a document of the collection, \<open>User.create\<close> throws
  and leaves the collection as it was; the error is \<open>Username already exists\<close> unless
  bcrypt rejected the password, which is hashed before the username is looked up.
\<close>

theorem create_existing_username:
  assumes "(i, d) \<in> set coll" and "d ''username'' = userData ''username''"
      and "truthy (userData ''username'')"
  shows "isl (fst (create B env coll userData))
       \<and> snd (create B env coll userData) = coll
       \<and> (\<not> isl (hash_password B (salt env) userData) \<longrightarrow>
            fst (create B env coll userData) = Inl (Error ''Username already exists''))"
proof (cases "hash_password B (salt env) userData")
  case (Inl e)
  then show ?thesis by (simp add: create_def)
next
  case (Inr ud)
  from hash_password_other_field[OF Inr, of "''username''"]
  have u: "ud ''username'' = userData ''username''" by simp
  from assms(3) obtain v where v: "userData ''username'' = Some v"
    by (cases "userData ''username''") auto
  from find_where_exists[OF assms(1)] assms(2) v
  have "findByUsername coll v \<noteq> None" by (simp add: findByUsername_def)
  with Inr u v assms(3) show ?thesis
    by (simp add: create_def Let_def)
qed

text \<open>The admin user created twice: the second call throws and adds nothing.\<close>

theorem create_existing_username_witness:
  "isl (fst (create sample_bcrypt sample_env2
          (snd (create sample_bcrypt sample_env [] admin_data)) admin_data))
   \<and> snd (create sample_bcrypt sample_env2
          (snd (create sample_bcrypt sample_env [] admin_data)) admin_data)
       = snd (create sample_bcrypt sample_env [] admin_data)
   \<and> fst (create sample_bcrypt sample_env2
          (snd (create sample_bcrypt sample_env [] admin_data)) admin_data)
       = Inl (Error ''Username already exists'')
   \<and> length (snd (create sample_bcrypt sample_env [] admin_data)) = 1"
  using create_existing_username [of "''u2''" "admin_data(''password'' \<mapsto> JStr ''admin$10$abc'',
      ''createdAt'' \<mapsto> JStr ''2025-01-01T00:00:00.000Z'',
      ''updatedAt'' \<mapsto> JStr ''2025-01-01T00:00:00.001Z'')"
      "snd (create sample_bcrypt sample_env [] admin_data)" admin_data sample_bcrypt sample_env2]
  by (simp add: Let_def admin_data_def create_def hash_password_def sample_bcrypt_def
        sample_env_def sample_env2_def findByUsername_def find_where_def)

text \<open>
  C10 as stated fails for the empty username: \<open>if (userData.username)\<close> is false for it
  and the lookup is skipped. A user with the empty username is created twice; the
  second call finds the username taken by the first, and still adds a document.
\<close>

theorem empty_username_created_twice:
  "findByUsername (snd (create sample_bcrypt sample_env [] [''username'' \<mapsto> JStr ''''])) (JStr '''')
     \<noteq> None
   \<and> \<not> isl (fst (create sample_bcrypt sample_env2
          (snd (create sample_bcrypt sample_env [] [''username'' \<mapsto> JStr '''']))
          [''username'' \<mapsto> JStr '''']))
   \<and> map fst (snd (create sample_bcrypt sample_env2
          (snd (create sample_bcrypt sample_env [] [''username'' \<mapsto> JStr '''']))
          [''username'' \<mapsto> JStr '''']))
       = [''u2'', ''u3'']"
  by (simp add: Let_def create_def hash_password_def sample_env_def sample_env2_def
        findByUsername_def find_where_def)

section \<open>Properties of the nutrition engine as specified\<close>

lemma vec_add_commute: "vec_add a b = vec_add b a"
  by (rule mapping_eqI) (simp add: vec_add_def lookup_combine combine_options_commute add.commute)

lemma vec_add_assoc: "vec_add (vec_add a b) c = vec_add a (vec_add b c)"
  by (rule mapping_eqI) (simp add: vec_add_def lookup_combine combine_options_assoc add.assoc)

lemma vec_add_right_commute: "vec_add (vec_add acc x) y = vec_add (vec_add acc y) x"
  by (metis vec_add_assoc vec_add_commute)

lemma compare_nutrient_same:
  "cmp_delta_pct (compare_nutrient v v 1 k) = Pct 0"
  "cmp_category (compare_nutrient v v 1 k) = OnTarget"
  "cmp_delta (compare_nutrient v v 1 k) = 0"
  by (simp_all add: compare_nutrient_def Let_def delta_pct_of_def UNDER_THRESHOLD_def
        OVER_THRESHOLD_def)

text \<open>
  C2. For every list of food entries (empty or not) and every window, \<open>aggregate\<close>
  returns the same nutrient vector for every permutation of the list.
\<close>

theorem aggregate_permutation:
  assumes "mset entries' = mset entries"
  shows "aggregate entries' w = aggregate entries w"
proof -
  let ?P = "\<lambda>e. in_window w (consumed_at e)"
  let ?step = "\<lambda>e acc. vec_add acc (total_nutrients e)"
  have m: "mset (filter ?P entries') = mset (filter ?P entries)"
    using assms by simp
  have c: "?step x \<circ> ?step y = ?step y \<circ> ?step x" for x y :: food_entry
    by (rule ext) (simp add: vec_add_right_commute)
  have "fold ?step (filter ?P entries') = fold ?step (filter ?P entries)"
    by (rule fold_multiset_equiv) (use m c in auto)
  then show ?thesis
    by (simp add: aggregate_def)
qed

text \<open>The two sample entries in both orders; the calories of the day are 500 + 700.\<close>

theorem aggregate_permutation_witness:
  "aggregate [lunch, breakfast] whole_day = aggregate [breakfast, lunch] whole_day
   \<and> quantity (aggregate [breakfast, lunch] whole_day) ''calories'' = 1200"
  using aggregate_permutation [of "[lunch, breakfast]" "[breakfast, lunch]" whole_day]
  by (simp add: aggregate_def in_window_def whole_day_def breakfast_def lunch_def quantity_def
        vec_add_def zero_vector_def lookup_default_def lookup_combine lookup_of_alist)

text \<open>
  C3. For every valid target (one \<open>compare\<close> accepts: its calories are positive),
  comparing the target's own vector against it at scale 1 succeeds with score 100, the
  comparison holds exactly the target's nutrients, and every nutrient of it has
  delta_pct 0 and category on-target, whatever the weights.
\<close>

theorem compare_target_with_itself:
  assumes "0 < calories t"
  shows "\<exists>c. compare weight (asVector t) t 1 = Inr c \<and> score c = 100
           \<and> dom (per_nutrient c) = Mapping.keys (asVector t)
           \<and> (\<forall>k n. per_nutrient c k = Some n \<longrightarrow>
                  cmp_delta_pct n = Pct 0 \<and> cmp_category n = OnTarget)"
  using assms
  by (auto simp: compare_def Let_def compare_nutrient_same MAX_PENALTY_def split: if_splits)

text \<open>The sample target, whose fiber target is 0, against itself.\<close>

theorem compare_target_with_itself_witness:
  "0 < calories sample_target
   \<and> (\<exists>c. compare sample_weight (asVector sample_target) sample_target 1 = Inr c \<and> score c = 100
         \<and> map_option cmp_category (per_nutrient c ''fiber_g'') = Some OnTarget
         \<and> map_option cmp_delta_pct (per_nutrient c ''calories'') = Some (Pct 0))"
proof -
  have pos: "0 < calories sample_target"
    by (simp add: sample_target_def)
  from compare_target_with_itself [OF pos, of sample_weight] obtain c where
    c: "compare sample_weight (asVector sample_target) sample_target 1 = Inr c" "score c = 100"
       "dom (per_nutrient c) = Mapping.keys (asVector sample_target)"
       "\<And>k n. per_nutrient c k = Some n \<Longrightarrow> cmp_delta_pct n = Pct 0 \<and> cmp_category n = OnTarget"
    by blast
  have "''fiber_g'' \<in> dom (per_nutrient c)" "''calories'' \<in> dom (per_nutrient c)"
    unfolding c(3) by (simp_all add: asVector_def)
  then obtain n1 n2 where
    n: "per_nutrient c ''fiber_g'' = Some n1" "per_nutrient c ''calories'' = Some n2"
    by blast
  from c(4)[OF n(1)] c(4)[OF n(2)] n c(1,2) pos show ?thesis by simp
qed

end
